theory Spec2Isabelle
  imports Main
begin

section \<open>JavaScript values used by the action handlers\<close>

text \<open>
  A \<^verbatim>\<open>Date\<close> is its millisecond timestamp. The handlers obtain the current time by
  evaluating \<^verbatim>\<open>new Date()\<close>, several times within one call; a \<open>Clock\<close> gives the
  value of the k-th evaluation (counted from 0) during one handler call. The JSON
  payload is opaque to the handlers and is kept as its serialised text.
\<close>

type_synonym Date = int
type_synonym Clock = "nat \<Rightarrow> Date"
type_synonym json = string

text \<open>
  A JavaScript expression of type \<^verbatim>\<open>T | null | undefined\<close>. The two nullish values are
  kept apart because the store treats them differently: an \<^verbatim>\<open>undefined\<close> entry of an
  update's \<^verbatim>\<open>set\<close> object leaves the column alone, a \<^verbatim>\<open>null\<close> stores NULL.
\<close>

datatype 'a js = Undefined | Null | Val 'a

text \<open>A schema field declared \<^verbatim>\<open>.optional()\<close>: absent means \<^verbatim>\<open>undefined\<close>.\<close>

definition optional :: "'a option \<Rightarrow> 'a js" where
  "optional x = (case x of None \<Rightarrow> Undefined | Some v \<Rightarrow> Val v)"

text \<open>Reading a nullable column of a row: NULL is read as \<^verbatim>\<open>null\<close>.\<close>

definition column :: "'a option \<Rightarrow> 'a js" where
  "column x = (case x of None \<Rightarrow> Null | Some v \<Rightarrow> Val v)"

text \<open>\<^verbatim>\<open>a ?? b\<close>, and \<^verbatim>\<open>a ?? d\<close> where \<open>d\<close> is a proper value.\<close>

definition coalesce :: "'a js \<Rightarrow> 'a js \<Rightarrow> 'a js" where
  "coalesce a b = (case a of Undefined \<Rightarrow> b | Null \<Rightarrow> b | Val v \<Rightarrow> Val v)"

definition coalesce_value :: "'a js \<Rightarrow> 'a \<Rightarrow> 'a" where
  "coalesce_value a d = (case a of Undefined \<Rightarrow> d | Null \<Rightarrow> d | Val v \<Rightarrow> v)"

text \<open>Array destructuring \<^verbatim>\<open>const [x] = rows\<close>: the first element, or \<^verbatim>\<open>undefined\<close>.\<close>

definition first :: "'a list \<Rightarrow> 'a option" where
  "first rows = (case rows of [] \<Rightarrow> None | r # _ \<Rightarrow> Some r)"

section \<open>Tables (db/tables.ts)\<close>

record DictionaryEntry =
  entry_id :: int
  entry_term :: string
  entry_language :: string
  entry_lemma :: "string option"
  entry_payload :: "json option"
  entry_partOfSpeech :: "string option"
  entry_fetchedAt :: Date
  entry_createdAt :: Date
  entry_updatedAt :: Date

record EntryVariant =
  variant_id :: int
  variant_entryId :: int
  variant_variant :: string
  variant_variantType :: "string option"
  variant_createdAt :: Date

datatype Familiarity = New | Learning | Familiar | Mastered

record UserWordNote =
  note_id :: int
  note_userId :: string
  note_entryId :: int
  note_tags :: "string option"
  note_note :: "string option"
  note_exampleSentence :: "string option"
  note_isStarred :: bool
  note_familiarity :: Familiarity
  note_createdAt :: Date
  note_updatedAt :: Date

record LookupHistoryRow =
  history_id :: int
  history_userId :: "string option"
  history_term :: string
  history_language :: string
  history_entryId :: "int option"
  history_lookedAt :: Date
  history_source :: "string option"
  history_context :: "string option"

text \<open>The database: each table is the list of its rows, in storage order.\<close>

record Store =
  DictionaryEntries :: "DictionaryEntry list"
  EntryVariants :: "EntryVariant list"
  UserWordNotes :: "UserWordNote list"
  LookupHistory :: "LookupHistoryRow list"

definition empty_store :: Store where
  "empty_store =
     \<lparr>DictionaryEntries = [], EntryVariants = [], UserWordNotes = [], LookupHistory = []\<rparr>"

section \<open>The store operations the handlers call\<close>

text \<open>
  The query builder is the external collaborator; the handlers use these forms of it.
  \<^item> \<^verbatim>\<open>select().from(T).where(p).limit(1)\<close> is \<open>take 1 (filter p rows)\<close>, and
    \<^verbatim>\<open>select().from(T).where(p)\<close> is \<open>filter p rows\<close>;
  \<^item> \<^verbatim>\<open>insert(T).values(v).returning()\<close> appends one row whose \<^verbatim>\<open>id\<close> is generated by
    the auto-incrementing primary key (one more than the largest id in the table, 1 in
    an empty table), and returns that row; an \<^verbatim>\<open>undefined\<close> value of an optional
    column is stored as NULL;
  \<^item> \<^verbatim>\<open>update(T).set(v).where(p).returning()\<close> rewrites every row satisfying \<open>p\<close> and
    returns the rewritten rows; an \<^verbatim>\<open>undefined\<close> entry of \<open>v\<close> leaves its column as it is;
  \<^item> the references between tables that db/tables.ts declares are not enforced by these
    operations: an insert or update here never fails.
\<close>

definition next_id :: "int list \<Rightarrow> int" where
  "next_id ids = fold max ids 0 + 1"

text \<open>What an insert stores for a possibly nullish value of an optional column.\<close>

definition stored :: "'a js \<Rightarrow> 'a option" where
  "stored a = (case a of Undefined \<Rightarrow> None | Null \<Rightarrow> None | Val v \<Rightarrow> Some v)"

text \<open>What an update's \<^verbatim>\<open>set\<close> does to an optional column holding \<open>old\<close>.\<close>

definition assign :: "'a js \<Rightarrow> 'a option \<Rightarrow> 'a option" where
  "assign a old = (case a of Undefined \<Rightarrow> old | Null \<Rightarrow> None | Val v \<Rightarrow> Some v)"

definition db_update :: "('r \<Rightarrow> 'r) \<Rightarrow> ('r \<Rightarrow> bool) \<Rightarrow> 'r list \<Rightarrow> 'r list \<times> 'r list" where
  "db_update f p rows = (map f (filter p rows), map (\<lambda>r. if p r then f r else r) rows)"

definition db_insert :: "(int \<Rightarrow> 'r) \<Rightarrow> ('r \<Rightarrow> int) \<Rightarrow> 'r list \<Rightarrow> 'r list \<times> 'r list" where
  "db_insert mk get_id rows = (let r = mk (next_id (map get_id rows)) in ([r], rows @ [r]))"

section \<open>Errors and the call context (src/actions/index.ts)\<close>

datatype ActionErrorCode = UNAUTHORIZED | NOT_FOUND | BAD_REQUEST

record ActionError =
  code :: ActionErrorCode
  message :: string

record User =
  user_id :: string

record Locals =
  user :: "User option"

record ActionAPIContext =
  locals :: "Locals option"

text \<open>\<^verbatim>\<open>context.locals?.user\<close>\<close>

definition locals_user :: "ActionAPIContext \<Rightarrow> User option" where
  "locals_user ctx = (case locals ctx of None \<Rightarrow> None | Some l \<Rightarrow> user l)"

definition requireUser :: "ActionAPIContext \<Rightarrow> ActionError + User" where
  "requireUser ctx =
     (case locals_user ctx of
        None \<Rightarrow> Inl \<lparr>code = UNAUTHORIZED,
                     message = ''You must be signed in to perform this action.''\<rparr>
      | Some u \<Rightarrow> Inr u)"

definition entry_not_found :: ActionError where
  "entry_not_found = \<lparr>code = NOT_FOUND, message = ''Entry not found.''\<rparr>"

section \<open>upsertEntry\<close>

record UpsertEntryInput =
  ue_id :: "int option"
  ue_term :: string
  ue_language :: "string option"
  ue_lemma :: "string option"
  ue_payload :: "json js"
  ue_partOfSpeech :: "string option"
  ue_fetchedAt :: "Date option"

record EntryValues =
  bv_term :: string
  bv_language :: string
  bv_lemma :: "string js"
  bv_payload :: "json js"
  bv_partOfSpeech :: "string js"
  bv_fetchedAt :: Date
  bv_createdAt :: Date
  bv_updatedAt :: Date

text \<open>
  The object literal \<^verbatim>\<open>baseValues\<close> of the handler. Its properties are evaluated in
  order; \<^verbatim>\<open>input.fetchedAt ?? new Date()\<close> reads the clock only when \<^verbatim>\<open>fetchedAt\<close> is
  absent, so \<^verbatim>\<open>createdAt\<close> and \<^verbatim>\<open>updatedAt\<close> are clock readings number \<open>k\<close> and
  \<open>k + 1\<close>, with \<open>k = 1\<close> when the clock was read for \<^verbatim>\<open>fetchedAt\<close> and \<open>k = 0\<close> otherwise.
\<close>

definition upsertEntry_reads :: "UpsertEntryInput \<Rightarrow> nat" where
  "upsertEntry_reads input = (case ue_fetchedAt input of None \<Rightarrow> 1 | Some _ \<Rightarrow> 0)"

definition upsertEntry_baseValues :: "UpsertEntryInput \<Rightarrow> Clock \<Rightarrow> EntryValues" where
  "upsertEntry_baseValues input clock =
     \<lparr>bv_term = ue_term input,
      bv_language = coalesce_value (optional (ue_language input)) ''en'',
      bv_lemma = optional (ue_lemma input),
      bv_payload = ue_payload input,
      bv_partOfSpeech = optional (ue_partOfSpeech input),
      bv_fetchedAt = (case ue_fetchedAt input of None \<Rightarrow> clock 0 | Some d \<Rightarrow> d),
      bv_createdAt = clock (upsertEntry_reads input),
      bv_updatedAt = clock (Suc (upsertEntry_reads input))\<rparr>"

text \<open>The row an insert of \<open>vals\<close> creates under the generated id \<open>i\<close>.\<close>

definition entry_row :: "EntryValues \<Rightarrow> int \<Rightarrow> DictionaryEntry" where
  "entry_row vals i =
     \<lparr>entry_id = i,
      entry_term = bv_term vals,
      entry_language = bv_language vals,
      entry_lemma = stored (bv_lemma vals),
      entry_payload = stored (bv_payload vals),
      entry_partOfSpeech = stored (bv_partOfSpeech vals),
      entry_fetchedAt = bv_fetchedAt vals,
      entry_createdAt = bv_createdAt vals,
      entry_updatedAt = bv_updatedAt vals\<rparr>"

text \<open>The row an update with \<^verbatim>\<open>.set(vals)\<close> makes of the row \<open>r\<close>.\<close>

definition set_entry :: "EntryValues \<Rightarrow> DictionaryEntry \<Rightarrow> DictionaryEntry" where
  "set_entry vals r =
     r\<lparr>entry_term := bv_term vals,
       entry_language := bv_language vals,
       entry_lemma := assign (bv_lemma vals) (entry_lemma r),
       entry_payload := assign (bv_payload vals) (entry_payload r),
       entry_partOfSpeech := assign (bv_partOfSpeech vals) (entry_partOfSpeech r),
       entry_fetchedAt := bv_fetchedAt vals,
       entry_createdAt := bv_createdAt vals,
       entry_updatedAt := bv_updatedAt vals\<rparr>"

text \<open>
  The handler. \<^verbatim>\<open>if (input.id)\<close> tests the truthiness of a number that may be
  \<^verbatim>\<open>undefined\<close>: the branch is taken when the id is present and not 0.
\<close>

definition upsertEntry ::
  "UpsertEntryInput \<Rightarrow> Clock \<Rightarrow> Store \<Rightarrow> (ActionError + DictionaryEntry option) \<times> Store" where
  "upsertEntry input clock db =
     (let baseValues = upsertEntry_baseValues input clock;
          inserted =
            (let (returned, rows) = db_insert (entry_row baseValues) entry_id (DictionaryEntries db)
             in (Inr (first returned), db\<lparr>DictionaryEntries := rows\<rparr>))
      in case ue_id input of
           None \<Rightarrow> inserted
         | Some i \<Rightarrow>
             if i = 0 then inserted
             else
               (case first (take 1 (filter (\<lambda>r. entry_id r = i) (DictionaryEntries db))) of
                  None \<Rightarrow> (Inl entry_not_found, db)
                | Some existing \<Rightarrow>
                    (let (returned, rows) =
                           db_update (set_entry baseValues) (\<lambda>r. entry_id r = i)
                             (DictionaryEntries db)
                     in (Inr (first returned), db\<lparr>DictionaryEntries := rows\<rparr>))))"

section \<open>addVariant\<close>

record AddVariantInput =
  av_entryId :: int
  av_variant :: string
  av_variantType :: "string option"

definition addVariant ::
  "AddVariantInput \<Rightarrow> Clock \<Rightarrow> Store \<Rightarrow> (ActionError + EntryVariant option) \<times> Store" where
  "addVariant input clock db =
     (case first (take 1 (filter (\<lambda>r. entry_id r = av_entryId input) (DictionaryEntries db))) of
        None \<Rightarrow> (Inl entry_not_found, db)
      | Some entry \<Rightarrow>
          (let (returned, rows) =
                 db_insert
                   (\<lambda>i. \<lparr>variant_id = i,
                         variant_entryId = av_entryId input,
                         variant_variant = av_variant input,
                         variant_variantType = stored (optional (av_variantType input)),
                         variant_createdAt = clock 0\<rparr>)
                   variant_id (EntryVariants db)
           in (Inr (first returned), db\<lparr>EntryVariants := rows\<rparr>)))"

section \<open>saveUserNote\<close>

record SaveUserNoteInput =
  sn_entryId :: int
  sn_tags :: "string option"
  sn_note :: "string option"
  sn_exampleSentence :: "string option"
  sn_isStarred :: "bool option"
  sn_familiarity :: "Familiarity option"

record NoteValues =
  nv_entryId :: int
  nv_userId :: string
  nv_tags :: "string js"
  nv_note :: "string js"
  nv_exampleSentence :: "string js"
  nv_isStarred :: bool
  nv_familiarity :: Familiarity
  nv_createdAt :: Date
  nv_updatedAt :: Date

text \<open>\<^verbatim>\<open>existing?.f\<close> for a nullable column \<open>f\<close>, and for a column that is never NULL.\<close>

definition chain :: "'r option \<Rightarrow> ('r \<Rightarrow> 'a option) \<Rightarrow> 'a js" where
  "chain existing f = (case existing of None \<Rightarrow> Undefined | Some r \<Rightarrow> column (f r))"

definition chain_value :: "'r option \<Rightarrow> ('r \<Rightarrow> 'a) \<Rightarrow> 'a js" where
  "chain_value existing f = (case existing of None \<Rightarrow> Undefined | Some r \<Rightarrow> Val (f r))"

text \<open>
  The object literal \<^verbatim>\<open>baseValues\<close> of the handler:
  \<^verbatim>\<open>existing?.createdAt ?? new Date()\<close> reads the clock only when there is no
  existing row, and \<^verbatim>\<open>updatedAt\<close> is the next reading.
\<close>

definition saveUserNote_baseValues ::
  "SaveUserNoteInput \<Rightarrow> User \<Rightarrow> UserWordNote option \<Rightarrow> Clock \<Rightarrow> NoteValues" where
  "saveUserNote_baseValues input u existing clock =
     \<lparr>nv_entryId = sn_entryId input,
      nv_userId = user_id u,
      nv_tags = coalesce (optional (sn_tags input)) (chain existing note_tags),
      nv_note = coalesce (optional (sn_note input)) (chain existing note_note),
      nv_exampleSentence =
        coalesce (optional (sn_exampleSentence input)) (chain existing note_exampleSentence),
      nv_isStarred =
        coalesce_value
          (coalesce (optional (sn_isStarred input)) (chain_value existing note_isStarred)) False,
      nv_familiarity =
        coalesce_value
          (coalesce (optional (sn_familiarity input)) (chain_value existing note_familiarity)) New,
      nv_createdAt = (case existing of None \<Rightarrow> clock 0 | Some r \<Rightarrow> note_createdAt r),
      nv_updatedAt = (case existing of None \<Rightarrow> clock 1 | Some r \<Rightarrow> clock 0)\<rparr>"

definition note_row :: "NoteValues \<Rightarrow> int \<Rightarrow> UserWordNote" where
  "note_row vals i =
     \<lparr>note_id = i,
      note_userId = nv_userId vals,
      note_entryId = nv_entryId vals,
      note_tags = stored (nv_tags vals),
      note_note = stored (nv_note vals),
      note_exampleSentence = stored (nv_exampleSentence vals),
      note_isStarred = nv_isStarred vals,
      note_familiarity = nv_familiarity vals,
      note_createdAt = nv_createdAt vals,
      note_updatedAt = nv_updatedAt vals\<rparr>"

definition set_note :: "NoteValues \<Rightarrow> UserWordNote \<Rightarrow> UserWordNote" where
  "set_note vals r =
     r\<lparr>note_userId := nv_userId vals,
       note_entryId := nv_entryId vals,
       note_tags := assign (nv_tags vals) (note_tags r),
       note_note := assign (nv_note vals) (note_note r),
       note_exampleSentence := assign (nv_exampleSentence vals) (note_exampleSentence r),
       note_isStarred := nv_isStarred vals,
       note_familiarity := nv_familiarity vals,
       note_createdAt := nv_createdAt vals,
       note_updatedAt := nv_updatedAt vals\<rparr>"

definition saveUserNote ::
  "SaveUserNoteInput \<Rightarrow> ActionAPIContext \<Rightarrow> Clock \<Rightarrow> Store \<Rightarrow>
     (ActionError + UserWordNote option) \<times> Store" where
  "saveUserNote input ctx clock db =
     (case requireUser ctx of
        Inl e \<Rightarrow> (Inl e, db)
      | Inr u \<Rightarrow>
          (case first (take 1 (filter (\<lambda>r. entry_id r = sn_entryId input)
                                 (DictionaryEntries db))) of
             None \<Rightarrow> (Inl entry_not_found, db)
           | Some entry \<Rightarrow>
               (let existing =
                      first (take 1 (filter (\<lambda>r. note_entryId r = sn_entryId input \<and>
                                                 note_userId r = user_id u)
                                       (UserWordNotes db)));
                    baseValues = saveUserNote_baseValues input u existing clock
                in case existing of
                     Some ex \<Rightarrow>
                       (let (returned, rows) =
                              db_update (set_note baseValues) (\<lambda>r. note_id r = note_id ex)
                                (UserWordNotes db)
                        in (Inr (first returned), db\<lparr>UserWordNotes := rows\<rparr>))
                   | None \<Rightarrow>
                       (let (returned, rows) =
                              db_insert (note_row baseValues) note_id (UserWordNotes db)
                        in (Inr (first returned), db\<lparr>UserWordNotes := rows\<rparr>)))))"

section \<open>listUserNotes, logLookup, listLookupHistory\<close>

definition listUserNotes ::
  "ActionAPIContext \<Rightarrow> Store \<Rightarrow> (ActionError + UserWordNote list) \<times> Store" where
  "listUserNotes ctx db =
     (case requireUser ctx of
        Inl e \<Rightarrow> (Inl e, db)
      | Inr u \<Rightarrow> (Inr (filter (\<lambda>r. note_userId r = user_id u) (UserWordNotes db)), db))"

record LogLookupInput =
  ll_term :: string
  ll_language :: "string option"
  ll_entryId :: "int option"
  ll_source :: "string option"
  ll_context :: "string option"

definition logLookup ::
  "LogLookupInput \<Rightarrow> ActionAPIContext \<Rightarrow> Clock \<Rightarrow> Store \<Rightarrow>
     (ActionError + LookupHistoryRow option) \<times> Store" where
  "logLookup input ctx clock db =
     (case requireUser ctx of
        Inl e \<Rightarrow> (Inl e, db)
      | Inr u \<Rightarrow>
          (let (returned, rows) =
                 db_insert
                   (\<lambda>i. \<lparr>history_id = i,
                         history_userId = Some (user_id u),
                         history_term = ll_term input,
                         history_language = coalesce_value (optional (ll_language input)) ''en'',
                         history_entryId = stored (optional (ll_entryId input)),
                         history_lookedAt = clock 0,
                         history_source = stored (optional (ll_source input)),
                         history_context = stored (optional (ll_context input))\<rparr>)
                   history_id (LookupHistory db)
           in (Inr (first returned), db\<lparr>LookupHistory := rows\<rparr>)))"

definition listLookupHistory ::
  "ActionAPIContext \<Rightarrow> Store \<Rightarrow> (ActionError + LookupHistoryRow list) \<times> Store" where
  "listLookupHistory ctx db =
     (case requireUser ctx of
        Inl e \<Rightarrow> (Inl e, db)
      | Inr u \<Rightarrow>
          (Inr (filter (\<lambda>r. history_userId r = Some (user_id u)) (LookupHistory db)), db))"

section \<open>The six handlers together\<close>

datatype Action =
    UpsertEntry UpsertEntryInput
  | AddVariant AddVariantInput
  | SaveUserNote SaveUserNoteInput
  | ListUserNotes
  | LogLookup LogLookupInput
  | ListLookupHistory

text \<open>
  The store the handler of an action leaves behind, whether it returns or throws, on
  any input of the handler's type.
\<close>

definition server :: "Action \<Rightarrow> ActionAPIContext \<Rightarrow> Clock \<Rightarrow> Store \<Rightarrow> Store" where
  "server a ctx clock db =
     (case a of
        UpsertEntry input \<Rightarrow> snd (upsertEntry input clock db)
      | AddVariant input \<Rightarrow> snd (addVariant input clock db)
      | SaveUserNote input \<Rightarrow> snd (saveUserNote input ctx clock db)
      | ListUserNotes \<Rightarrow> snd (listUserNotes ctx db)
      | LogLookup input \<Rightarrow> snd (logLookup input ctx clock db)
      | ListLookupHistory \<Rightarrow> snd (listLookupHistory ctx db))"

text \<open>
  The stores that runs of the six handlers make of the empty database. An action runs
  its handler or, on an input its schema rejects, nothing: every store the actions make
  of the empty database is among these (lemma \<open>action_store_reachable\<close> below).
\<close>

inductive reachable :: "Store \<Rightarrow> bool" where
  init: "reachable empty_store"
| step: "reachable db \<Longrightarrow> reachable (server a ctx clock db)"

section \<open>The input schemas and the actions\<close>

text \<open>
  Each property of the exported \<^verbatim>\<open>server\<close> object is
  \<^verbatim>\<open>defineAction({ input, handler })\<close>: the action parses what the caller sends with the
  schema \<^verbatim>\<open>input\<close> before it runs \<^verbatim>\<open>handler\<close>, and answers an input the schema
  rejects with an input error of code \<^verbatim>\<open>BAD_REQUEST\<close>, without running the handler.
  The definitions \<open>upsertEntry\<close>, \<open>addVariant\<close>, \<open>saveUserNote\<close>, \<open>listUserNotes\<close>,
  \<open>logLookup\<close> and \<open>listLookupHistory\<close> above are the six handlers. The input records
  have the types of the schemas; what a type leaves to check is checked here:
  \<^verbatim>\<open>z.string().min(1)\<close> is a string of length at least 1, \<^verbatim>\<open>z.number().int()\<close> an
  integer in the safe range of a JavaScript number, \<^verbatim>\<open>z.coerce.date()\<close> a valid
  \<^verbatim>\<open>Date\<close>, whose timestamp is at most 8.64e15 milliseconds from the epoch.
\<close>

definition safe_integer :: "int \<Rightarrow> bool" where
  "safe_integer i = (- 9007199254740991 \<le> i \<and> i \<le> 9007199254740991)"

definition valid_date :: "Date \<Rightarrow> bool" where
  "valid_date d = (- 8640000000000000 \<le> d \<and> d \<le> 8640000000000000)"

text \<open>\<^verbatim>\<open>.optional()\<close>: an absent field passes, a present one is checked.\<close>

definition optional_field :: "('a \<Rightarrow> bool) \<Rightarrow> 'a option \<Rightarrow> bool" where
  "optional_field check x = (case x of None \<Rightarrow> True | Some v \<Rightarrow> check v)"

definition upsertEntry_schema :: "UpsertEntryInput \<Rightarrow> bool" where
  "upsertEntry_schema input =
     (optional_field safe_integer (ue_id input) \<and>
      1 \<le> length (ue_term input) \<and>
      optional_field valid_date (ue_fetchedAt input))"

definition addVariant_schema :: "AddVariantInput \<Rightarrow> bool" where
  "addVariant_schema input =
     (safe_integer (av_entryId input) \<and> 1 \<le> length (av_variant input))"

definition saveUserNote_schema :: "SaveUserNoteInput \<Rightarrow> bool" where
  "saveUserNote_schema input = safe_integer (sn_entryId input)"

definition logLookup_schema :: "LogLookupInput \<Rightarrow> bool" where
  "logLookup_schema input =
     (1 \<le> length (ll_term input) \<and> optional_field safe_integer (ll_entryId input))"

text \<open>
  \<^verbatim>\<open>z.object({}).optional()\<close>, the schema of the two list actions, asks nothing of the
  empty input they are called with.
\<close>

definition empty_schema :: "unit \<Rightarrow> bool" where
  "empty_schema input = True"

text \<open>
  The message of the input error lists the issues the schema found; it is written by the
  framework, outside this repository, and is the parameter \<open>issues\<close>.
\<close>

definition defineAction ::
  "('i \<Rightarrow> bool) \<Rightarrow> ('i \<Rightarrow> Store \<Rightarrow> (ActionError + 'r) \<times> Store) \<Rightarrow> string \<Rightarrow> 'i \<Rightarrow> Store \<Rightarrow>
     (ActionError + 'r) \<times> Store" where
  "defineAction schema handler issues input db =
     (if schema input then handler input db
      else (Inl \<lparr>code = BAD_REQUEST, message = issues\<rparr>, db))"

definition upsertEntry_action ::
  "string \<Rightarrow> UpsertEntryInput \<Rightarrow> Clock \<Rightarrow> Store \<Rightarrow>
     (ActionError + DictionaryEntry option) \<times> Store" where
  "upsertEntry_action issues input clock db =
     defineAction upsertEntry_schema (\<lambda>i. upsertEntry i clock) issues input db"

definition addVariant_action ::
  "string \<Rightarrow> AddVariantInput \<Rightarrow> Clock \<Rightarrow> Store \<Rightarrow> (ActionError + EntryVariant option) \<times> Store" where
  "addVariant_action issues input clock db =
     defineAction addVariant_schema (\<lambda>i. addVariant i clock) issues input db"

definition saveUserNote_action ::
  "string \<Rightarrow> SaveUserNoteInput \<Rightarrow> ActionAPIContext \<Rightarrow> Clock \<Rightarrow> Store \<Rightarrow>
     (ActionError + UserWordNote option) \<times> Store" where
  "saveUserNote_action issues input ctx clock db =
     defineAction saveUserNote_schema (\<lambda>i. saveUserNote i ctx clock) issues input db"

definition listUserNotes_action ::
  "string \<Rightarrow> ActionAPIContext \<Rightarrow> Store \<Rightarrow> (ActionError + UserWordNote list) \<times> Store" where
  "listUserNotes_action issues ctx db =
     defineAction empty_schema (\<lambda>i. listUserNotes ctx) issues () db"

definition logLookup_action ::
  "string \<Rightarrow> LogLookupInput \<Rightarrow> ActionAPIContext \<Rightarrow> Clock \<Rightarrow> Store \<Rightarrow>
     (ActionError + LookupHistoryRow option) \<times> Store" where
  "logLookup_action issues input ctx clock db =
     defineAction logLookup_schema (\<lambda>i. logLookup i ctx clock) issues input db"

definition listLookupHistory_action ::
  "string \<Rightarrow> ActionAPIContext \<Rightarrow> Store \<Rightarrow> (ActionError + LookupHistoryRow list) \<times> Store" where
  "listLookupHistory_action issues ctx db =
     defineAction empty_schema (\<lambda>i. listLookupHistory ctx) issues () db"

text \<open>The store an action leaves behind, whether it succeeds or fails.\<close>

definition action_store ::
  "string \<Rightarrow> Action \<Rightarrow> ActionAPIContext \<Rightarrow> Clock \<Rightarrow> Store \<Rightarrow> Store" where
  "action_store issues a ctx clock db =
     (case a of
        UpsertEntry input \<Rightarrow> snd (upsertEntry_action issues input clock db)
      | AddVariant input \<Rightarrow> snd (addVariant_action issues input clock db)
      | SaveUserNote input \<Rightarrow> snd (saveUserNote_action issues input ctx clock db)
      | ListUserNotes \<Rightarrow> snd (listUserNotes_action issues ctx db)
      | LogLookup input \<Rightarrow> snd (logLookup_action issues input ctx clock db)
      | ListLookupHistory \<Rightarrow> snd (listLookupHistory_action issues ctx db))"

lemmas schema_defs =
  safe_integer_def valid_date_def optional_field_def upsertEntry_schema_def addVariant_schema_def
  saveUserNote_schema_def logLookup_schema_def empty_schema_def

section \<open>The merge computation\<close>

text \<open>
  The record a handler persists, as a function of the row its identity resolution found
  (or none), the input and the clock: the update path writes \<open>set_entry\<close> or \<open>set_note\<close>
  of \<^verbatim>\<open>baseValues\<close> over the existing row, the insert path creates the row of
  \<^verbatim>\<open>baseValues\<close> under the generated id \<open>i\<close>. The lemmas \<open>upsertEntry_returns_merge\<close>
  and \<open>saveUserNote_step\<close> below show that the handlers return exactly these records.
\<close>

definition upsertEntry_merge ::
  "DictionaryEntry option \<Rightarrow> UpsertEntryInput \<Rightarrow> Clock \<Rightarrow> int \<Rightarrow> DictionaryEntry" where
  "upsertEntry_merge existing input clock i =
     (case existing of
        Some ex \<Rightarrow> set_entry (upsertEntry_baseValues input clock) ex
      | None \<Rightarrow> entry_row (upsertEntry_baseValues input clock) i)"

definition saveUserNote_merge ::
  "UserWordNote option \<Rightarrow> SaveUserNoteInput \<Rightarrow> User \<Rightarrow> Clock \<Rightarrow> int \<Rightarrow> UserWordNote" where
  "saveUserNote_merge existing input u clock i =
     (case existing of
        Some ex \<Rightarrow> set_note (saveUserNote_baseValues input u existing clock) ex
      | None \<Rightarrow> note_row (saveUserNote_baseValues input u existing clock) i)"

text \<open>
  The uniqueness the note table is meant to have: the primary key, and at most one note
  for a pair of entry and user.
\<close>

definition note_key :: "UserWordNote \<Rightarrow> int \<times> string" where
  "note_key r = (note_entryId r, note_userId r)"

definition notes_unique :: "UserWordNote list \<Rightarrow> bool" where
  "notes_unique rows = (distinct (map note_id rows) \<and> distinct (map note_key rows))"

text \<open>
  In the words of the specification: the union of the fields two calls provide
  explicitly, where the second call wins on a field both provide. \<open>None\<close> is a field that
  neither call provides.
\<close>

definition explicit_union :: "'a option \<Rightarrow> 'a option \<Rightarrow> 'a option" where
  "explicit_union second firstly = (case second of Some v \<Rightarrow> Some v | None \<Rightarrow> firstly)"

section \<open>Example data\<close>

text \<open>A clock that does not advance during a call, and one that ticks after two readings.\<close>

definition clock_at :: "Date \<Rightarrow> Clock" where
  "clock_at t k = t"

definition ticking_clock :: Clock where
  "ticking_clock k = (if k < 2 then 1000 else 1001)"

definition signed_in :: "string \<Rightarrow> ActionAPIContext" where
  "signed_in uid = \<lparr>locals = Some \<lparr>user = Some \<lparr>user_id = uid\<rparr>\<rparr>\<rparr>"

definition anonymous :: ActionAPIContext where
  "anonymous = \<lparr>locals = Some \<lparr>user = None\<rparr>\<rparr>"

definition run_input :: UpsertEntryInput where
  "run_input =
     \<lparr>ue_id = None, ue_term = ''run'', ue_language = None, ue_lemma = None,
      ue_payload = Undefined, ue_partOfSpeech = None, ue_fetchedAt = None\<rparr>"

definition zero_id_input :: UpsertEntryInput where
  "zero_id_input = run_input\<lparr>ue_id := Some 0\<rparr>"

definition courir_entry :: DictionaryEntry where
  "courir_entry =
     \<lparr>entry_id = 1, entry_term = ''courir'', entry_language = ''fr'',
      entry_lemma = Some ''courir'', entry_payload = None, entry_partOfSpeech = Some ''verb'',
      entry_fetchedAt = 10, entry_createdAt = 10, entry_updatedAt = 10\<rparr>"

definition courir_store :: Store where
  "courir_store = empty_store\<lparr>DictionaryEntries := [courir_entry]\<rparr>"

definition courir_input :: UpsertEntryInput where
  "courir_input =
     \<lparr>ue_id = Some 1, ue_term = ''courir'', ue_language = None, ue_lemma = None,
      ue_payload = Undefined, ue_partOfSpeech = None, ue_fetchedAt = None\<rparr>"

definition star_input :: SaveUserNoteInput where
  "star_input =
     \<lparr>sn_entryId = 1, sn_tags = None, sn_note = None, sn_exampleSentence = None,
      sn_isStarred = Some True, sn_familiarity = None\<rparr>"

definition jog_input :: SaveUserNoteInput where
  "jog_input =
     \<lparr>sn_entryId = 1, sn_tags = None, sn_note = Some ''means to jog'',
      sn_exampleSentence = None, sn_isStarred = None, sn_familiarity = None\<rparr>"

definition run_lookup :: LogLookupInput where
  "run_lookup =
     \<lparr>ll_term = ''run'', ll_language = None, ll_entryId = None, ll_source = None,
      ll_context = None\<rparr>"

definition plural_input :: "int \<Rightarrow> AddVariantInput" where
  "plural_input i = \<lparr>av_entryId = i, av_variant = ''courirs'', av_variantType = Some ''plural''\<rparr>"

definition note_of :: "int \<Rightarrow> string \<Rightarrow> UserWordNote" where
  "note_of i uid =
     \<lparr>note_id = i, note_userId = uid, note_entryId = 1, note_tags = None, note_note = None,
      note_exampleSentence = None, note_isStarred = False, note_familiarity = New,
      note_createdAt = 10, note_updatedAt = 10\<rparr>"

definition two_users_store :: Store where
  "two_users_store = courir_store\<lparr>UserWordNotes := [note_of 1 ''u1'', note_of 2 ''u2'']\<rparr>"

definition run_store :: Store where
  "run_store = server (UpsertEntry run_input) anonymous (clock_at 10) empty_store"

lemmas js_defs =
  optional_def column_def coalesce_def coalesce_value_def stored_def assign_def chain_def
  chain_value_def

lemmas example_defs =
  clock_at_def ticking_clock_def signed_in_def anonymous_def run_input_def courir_entry_def
  courir_store_def courir_input_def zero_id_input_def star_input_def jog_input_def
  run_lookup_def plural_input_def note_of_def two_users_store_def empty_store_def

lemmas eval_defs =
  upsertEntry_def addVariant_def saveUserNote_def listUserNotes_def logLookup_def
  listLookupHistory_def requireUser_def locals_user_def upsertEntry_baseValues_def
  upsertEntry_reads_def saveUserNote_baseValues_def entry_row_def set_entry_def note_row_def
  set_note_def db_insert_def db_update_def next_id_def first_def js_defs entry_not_found_def
  Let_def

section \<open>Facts about the store operations\<close>

lemma first_take_filter: "first (take (Suc 0) (filter p rows)) = List.find p rows"
  by (induction rows) (simp_all add: first_def)

lemma first_single: "first [r] = Some r"
  by (simp add: first_def)

lemma first_map_filter: "first (map f (filter p rows)) = map_option f (List.find p rows)"
  by (induction rows) (simp_all add: first_def)

lemma find_SomeD: "List.find p rows = Some r \<Longrightarrow> r \<in> set rows \<and> p r"
  by (induction rows) (auto split: if_splits)

lemma find_of_filter: "filter p rows = [r] \<Longrightarrow> List.find p rows = Some r"
  using first_take_filter [of p rows] by (simp add: first_def)

lemma find_entry:
  "i \<in> entry_id ` set (DictionaryEntries db) \<Longrightarrow>
   \<exists>entry. List.find (\<lambda>r. entry_id r = i) (DictionaryEntries db) = Some entry"
  by (cases "List.find (\<lambda>r. entry_id r = i) (DictionaryEntries db)") (auto simp: find_None_iff)

lemma fold_max_lower: "(a::int) \<le> fold max ids a"
proof (induction ids arbitrary: a)
  case Nil
  show ?case by simp
next
  case (Cons i ids)
  have "a \<le> max i a" by simp
  also have "\<dots> \<le> fold max ids (max i a)" by (rule Cons.IH)
  finally show ?case by simp
qed

lemma fold_max_upper: "i \<in> set ids \<Longrightarrow> (i::int) \<le> fold max ids a"
proof (induction ids arbitrary: a)
  case Nil
  then show ?case by simp
next
  case (Cons j ids)
  show ?case
  proof (cases "i = j")
    case True
    have "i \<le> max j a" using True by simp
    also have "\<dots> \<le> fold max ids (max j a)" by (rule fold_max_lower)
    finally show ?thesis by simp
  next
    case False
    with Cons.prems have "i \<in> set ids" by simp
    then show ?thesis using Cons.IH by simp
  qed
qed

text \<open>A generated id is new in its table.\<close>

lemma next_id_fresh: "next_id ids \<notin> set ids"
  using fold_max_upper [of "next_id ids" ids 0] by (auto simp: next_id_def)

lemma next_id_fresh_rows: "next_id (map get_id rows) \<notin> get_id ` set rows"
  using next_id_fresh [of "map get_id rows"] by simp

lemma db_insert_eq:
  "db_insert mk get_id rows =
     ([mk (next_id (map get_id rows))], rows @ [mk (next_id (map get_id rows))])"
  by (simp add: db_insert_def Let_def)

lemma requireUser_None:
  "locals_user ctx = None \<Longrightarrow>
   requireUser ctx =
     Inl \<lparr>code = UNAUTHORIZED, message = ''You must be signed in to perform this action.''\<rparr>"
  by (simp add: requireUser_def)

lemma requireUser_Some: "locals_user ctx = Some u \<Longrightarrow> requireUser ctx = Inr u"
  by (simp add: requireUser_def)

text \<open>With a unique key, the rows selected and the rows rewritten through it are one row.\<close>

lemma filter_unique_key:
  "distinct (map k rows) \<Longrightarrow> ex \<in> set rows \<Longrightarrow> filter (\<lambda>r. k r = k ex) rows = [ex]"
proof (induction rows)
  case Nil
  then show ?case by simp
next
  case (Cons r rows)
  show ?case
  proof (cases "ex = r")
    case True
    have "k r \<notin> k ` set rows" using Cons.prems(1) by simp
    then have "\<forall>x \<in> set rows. k x \<noteq> k r" by (metis imageI)
    then have "filter (\<lambda>x. k x = k r) rows = []" by (simp add: filter_empty_conv)
    then show ?thesis using True by simp
  next
    case False
    then have "ex \<in> set rows" using Cons.prems(2) by simp
    moreover have "k r \<notin> k ` set rows" using Cons.prems(1) by simp
    then have "k r \<noteq> k ex" using \<open>ex \<in> set rows\<close> by (metis imageI)
    ultimately show ?thesis using Cons by simp
  qed
qed

lemma update_unique_key:
  assumes "distinct (map k rows)" and "ex \<in> set rows"
  shows "map (\<lambda>r. if k r = k ex then f r else r) rows = map (\<lambda>r. if r = ex then f ex else r) rows"
proof (rule map_cong [OF refl])
  fix r assume "r \<in> set rows"
  moreover have "inj_on k (set rows)" using assms(1) by (simp add: distinct_map)
  ultimately have "k r = k ex \<longleftrightarrow> r = ex" using assms(2) by (auto dest: inj_onD)
  then show "(if k r = k ex then f r else r) = (if r = ex then f ex else r)" by auto
qed

section \<open>What the merge computation produces, field by field\<close>

lemma upsertEntry_merge_fields:
  "entry_id (upsertEntry_merge existing input clock i) =
     (case existing of None \<Rightarrow> i | Some ex \<Rightarrow> entry_id ex)"
  "entry_term (upsertEntry_merge existing input clock i) = ue_term input"
  "entry_language (upsertEntry_merge existing input clock i) =
     (case ue_language input of Some v \<Rightarrow> v | None \<Rightarrow> ''en'')"
  "entry_lemma (upsertEntry_merge existing input clock i) =
     (case ue_lemma input of Some v \<Rightarrow> Some v
      | None \<Rightarrow> (case existing of None \<Rightarrow> None | Some ex \<Rightarrow> entry_lemma ex))"
  "entry_payload (upsertEntry_merge existing input clock i) =
     (case ue_payload input of Val v \<Rightarrow> Some v | Null \<Rightarrow> None
      | Undefined \<Rightarrow> (case existing of None \<Rightarrow> None | Some ex \<Rightarrow> entry_payload ex))"
  "entry_partOfSpeech (upsertEntry_merge existing input clock i) =
     (case ue_partOfSpeech input of Some v \<Rightarrow> Some v
      | None \<Rightarrow> (case existing of None \<Rightarrow> None | Some ex \<Rightarrow> entry_partOfSpeech ex))"
  "entry_fetchedAt (upsertEntry_merge existing input clock i) =
     (case ue_fetchedAt input of Some d \<Rightarrow> d | None \<Rightarrow> clock 0)"
  "entry_createdAt (upsertEntry_merge existing input clock i) = clock (upsertEntry_reads input)"
  "entry_updatedAt (upsertEntry_merge existing input clock i) =
     clock (Suc (upsertEntry_reads input))"
  by (simp_all add: upsertEntry_merge_def upsertEntry_baseValues_def entry_row_def set_entry_def
      js_defs split: option.split js.split)

lemma saveUserNote_merge_fields:
  "note_id (saveUserNote_merge existing input u clock i) =
     (case existing of None \<Rightarrow> i | Some ex \<Rightarrow> note_id ex)"
  "note_userId (saveUserNote_merge existing input u clock i) = user_id u"
  "note_entryId (saveUserNote_merge existing input u clock i) = sn_entryId input"
  "note_tags (saveUserNote_merge existing input u clock i) =
     (case sn_tags input of Some v \<Rightarrow> Some v
      | None \<Rightarrow> (case existing of None \<Rightarrow> None | Some ex \<Rightarrow> note_tags ex))"
  "note_note (saveUserNote_merge existing input u clock i) =
     (case sn_note input of Some v \<Rightarrow> Some v
      | None \<Rightarrow> (case existing of None \<Rightarrow> None | Some ex \<Rightarrow> note_note ex))"
  "note_exampleSentence (saveUserNote_merge existing input u clock i) =
     (case sn_exampleSentence input of Some v \<Rightarrow> Some v
      | None \<Rightarrow> (case existing of None \<Rightarrow> None | Some ex \<Rightarrow> note_exampleSentence ex))"
  "note_isStarred (saveUserNote_merge existing input u clock i) =
     (case sn_isStarred input of Some v \<Rightarrow> v
      | None \<Rightarrow> (case existing of None \<Rightarrow> False | Some ex \<Rightarrow> note_isStarred ex))"
  "note_familiarity (saveUserNote_merge existing input u clock i) =
     (case sn_familiarity input of Some v \<Rightarrow> v
      | None \<Rightarrow> (case existing of None \<Rightarrow> New | Some ex \<Rightarrow> note_familiarity ex))"
  "note_createdAt (saveUserNote_merge existing input u clock i) =
     (case existing of None \<Rightarrow> clock 0 | Some ex \<Rightarrow> note_createdAt ex)"
  "note_updatedAt (saveUserNote_merge existing input u clock i) =
     (case existing of None \<Rightarrow> clock 1 | Some ex \<Rightarrow> clock 0)"
  by (simp_all add: saveUserNote_merge_def saveUserNote_baseValues_def note_row_def set_note_def
      js_defs split: option.split)

text \<open>The record \<open>upsertEntry\<close> returns is the merged one.\<close>

lemma upsertEntry_returns_merge:
  "fst (upsertEntry input clock db) =
     (case ue_id input of
        None \<Rightarrow>
          Inr (Some (upsertEntry_merge None input clock
                       (next_id (map entry_id (DictionaryEntries db)))))
      | Some i \<Rightarrow>
          if i = 0
          then Inr (Some (upsertEntry_merge None input clock
                            (next_id (map entry_id (DictionaryEntries db)))))
          else (case List.find (\<lambda>r. entry_id r = i) (DictionaryEntries db) of
                  None \<Rightarrow> Inl entry_not_found
                | Some ex \<Rightarrow> Inr (Some (upsertEntry_merge (Some ex) input clock i))))"
  by (simp add: upsertEntry_def Let_def db_insert_eq first_single first_take_filter db_update_def
      first_map_filter upsertEntry_merge_def split: option.split)

section \<open>saveUserNote on a table with unique keys\<close>

text \<open>
  When the note table has unique ids and at most one note for a pair of entry and user,
  a call by a signed-in user for an existing entry returns the merged record, keeps the
  table unique and leaves exactly that record for the pair.
\<close>

lemma saveUserNote_step:
  assumes unique: "notes_unique (UserWordNotes db)"
    and signed: "locals_user ctx = Some u"
    and entry: "sn_entryId input \<in> entry_id ` set (DictionaryEntries db)"
  shows "\<exists>rows.
           saveUserNote input ctx clock db =
             (Inr (Some (saveUserNote_merge
                           (List.find (\<lambda>r. note_entryId r = sn_entryId input \<and>
                                            note_userId r = user_id u) (UserWordNotes db))
                           input u clock (next_id (map note_id (UserWordNotes db))))),
              db\<lparr>UserWordNotes := rows\<rparr>) \<and>
           notes_unique rows \<and>
           filter (\<lambda>r. note_entryId r = sn_entryId input \<and> note_userId r = user_id u) rows =
             [saveUserNote_merge
                (List.find (\<lambda>r. note_entryId r = sn_entryId input \<and>
                                 note_userId r = user_id u) (UserWordNotes db))
                input u clock (next_id (map note_id (UserWordNotes db)))]"
proof -
  let ?p = "\<lambda>r. note_entryId r = sn_entryId input \<and> note_userId r = user_id u"
  let ?notes = "UserWordNotes db"
  let ?i = "next_id (map note_id ?notes)"
  obtain entry where found:
    "List.find (\<lambda>r. entry_id r = sn_entryId input) (DictionaryEntries db) = Some entry"
    using find_entry [OF entry] by blast
  have key: "?p r \<longleftrightarrow> note_key r = (sn_entryId input, user_id u)" for r
    by (auto simp: note_key_def)
  show ?thesis
  proof (cases "List.find ?p ?notes")
    case None
    let ?n = "saveUserNote_merge None input u clock ?i"
    have run: "saveUserNote input ctx clock db = (Inr (Some ?n), db\<lparr>UserWordNotes := ?notes @ [?n]\<rparr>)"
      using None found
      by (simp add: saveUserNote_def requireUser_Some [OF signed] first_take_filter db_insert_eq
          first_single saveUserNote_merge_def Let_def)
    have none: "\<forall>r \<in> set ?notes. \<not> ?p r" using None by (simp add: find_None_iff)
    have new: "?p ?n" by (simp add: saveUserNote_merge_fields)
    have "note_id ?n \<notin> note_id ` set ?notes"
      using next_id_fresh_rows [of note_id ?notes] by (simp add: saveUserNote_merge_fields)
    moreover have "note_key ?n \<notin> note_key ` set ?notes"
      using none new by (auto simp: key)
    ultimately have "notes_unique (?notes @ [?n])"
      using unique by (simp add: notes_unique_def)
    moreover have "filter ?p (?notes @ [?n]) = [?n]"
      using none new by (simp add: filter_empty_conv)
    ultimately show ?thesis using run unfolding None by blast
  next
    case (Some ex)
    let ?f = "set_note (saveUserNote_baseValues input u (Some ex) clock)"
    let ?g = "\<lambda>r. if r = ex then ?f ex else r"
    have ex: "ex \<in> set ?notes" "?p ex" using find_SomeD [OF Some] by simp_all
    have ids: "distinct (map note_id ?notes)" and keys: "distinct (map note_key ?notes)"
      using unique by (simp_all add: notes_unique_def)
    have merged: "saveUserNote_merge (Some ex) input u clock ?i = ?f ex"
      by (simp add: saveUserNote_merge_def)
    have id_f: "note_id (?f r) = note_id r" for r by (simp add: set_note_def)
    have key_f: "note_key (?f ex) = note_key ex"
      using ex(2) by (simp add: set_note_def note_key_def saveUserNote_baseValues_def)
    have id_g: "note_id (?g r) = note_id r" and key_g: "note_key (?g r) = note_key r" for r
      using id_f key_f by simp_all
    have rows: "map (\<lambda>r. if note_id r = note_id ex then ?f r else r) ?notes = map ?g ?notes"
      by (rule update_unique_key [OF ids ex(1)])
    have returned: "filter (\<lambda>r. note_id r = note_id ex) ?notes = [ex]"
      by (rule filter_unique_key [OF ids ex(1)])
    have run: "saveUserNote input ctx clock db =
                 (Inr (Some (?f ex)), db\<lparr>UserWordNotes := map ?g ?notes\<rparr>)"
      using Some found rows returned
      by (simp add: saveUserNote_def requireUser_Some [OF signed] first_take_filter db_update_def
          first_single Let_def)
    have same_ids: "map note_id (map ?g ?notes) = map note_id ?notes"
      and same_keys: "map note_key (map ?g ?notes) = map note_key ?notes"
      using id_g key_g by (simp_all add: comp_def)
    have unique': "notes_unique (map ?g ?notes)"
      unfolding notes_unique_def same_ids same_keys using ids keys by blast
    have "?p (?g r) \<longleftrightarrow> ?p r" for r unfolding key key_g ..
    then have "filter ?p (map ?g ?notes) = map ?g (filter ?p ?notes)"
      by (simp add: filter_map comp_def)
    also have "filter ?p ?notes = filter (\<lambda>r. note_key r = note_key ex) ?notes"
      using ex(2) by (simp add: note_key_def)
    also have "\<dots> = [ex]" by (rule filter_unique_key [OF keys ex(1)])
    finally have "filter ?p (map ?g ?notes) = [?f ex]" by simp
    then show ?thesis using run unique' unfolding Some merged by blast
  qed
qed

section \<open>What each action leaves untouched\<close>

lemma history_upsertEntry: "LookupHistory (snd (upsertEntry input clock db)) = LookupHistory db"
  by (simp add: upsertEntry_def db_insert_eq db_update_def Let_def split: option.split)

lemma history_addVariant: "LookupHistory (snd (addVariant input clock db)) = LookupHistory db"
  by (simp add: addVariant_def db_insert_eq split: option.split)

lemma history_saveUserNote:
  "LookupHistory (snd (saveUserNote input ctx clock db)) = LookupHistory db"
  by (simp add: saveUserNote_def db_insert_eq db_update_def Let_def split: option.split sum.split)

lemma history_listUserNotes: "LookupHistory (snd (listUserNotes ctx db)) = LookupHistory db"
  by (simp add: listUserNotes_def split: sum.split)

lemma history_listLookupHistory:
  "LookupHistory (snd (listLookupHistory ctx db)) = LookupHistory db"
  by (simp add: listLookupHistory_def split: sum.split)

lemma history_logLookup:
  "\<exists>new. LookupHistory (snd (logLookup input ctx clock db)) = LookupHistory db @ new \<and>
          length new \<le> 1"
  by (simp add: logLookup_def db_insert_eq split: sum.split)

lemma notes_upsertEntry: "UserWordNotes (snd (upsertEntry input clock db)) = UserWordNotes db"
  by (simp add: upsertEntry_def db_insert_eq db_update_def Let_def split: option.split)

lemma notes_addVariant: "UserWordNotes (snd (addVariant input clock db)) = UserWordNotes db"
  by (simp add: addVariant_def db_insert_eq split: option.split)

lemma notes_listUserNotes: "UserWordNotes (snd (listUserNotes ctx db)) = UserWordNotes db"
  by (simp add: listUserNotes_def split: sum.split)

lemma notes_logLookup: "UserWordNotes (snd (logLookup input ctx clock db)) = UserWordNotes db"
  by (simp add: logLookup_def db_insert_eq split: sum.split)

lemma notes_listLookupHistory:
  "UserWordNotes (snd (listLookupHistory ctx db)) = UserWordNotes db"
  by (simp add: listLookupHistory_def split: sum.split)

lemma saveUserNote_unique:
  assumes "notes_unique (UserWordNotes db)"
  shows "notes_unique (UserWordNotes (snd (saveUserNote input ctx clock db)))"
proof (cases "locals_user ctx")
  case None
  then show ?thesis using assms by (simp add: saveUserNote_def requireUser_None)
next
  case (Some u)
  show ?thesis
  proof (cases "sn_entryId input \<in> entry_id ` set (DictionaryEntries db)")
    case True
    from saveUserNote_step [OF assms Some True, of clock] show ?thesis by auto
  next
    case False
    then have "List.find (\<lambda>r. entry_id r = sn_entryId input) (DictionaryEntries db) = None"
      by (auto simp: find_None_iff image_iff)
    then show ?thesis
      using assms by (simp add: saveUserNote_def requireUser_Some [OF Some] first_take_filter)
  qed
qed

lemma server_unique:
  "notes_unique (UserWordNotes db) \<Longrightarrow> notes_unique (UserWordNotes (server a ctx clock db))"
  by (cases a)
    (simp_all add: server_def notes_upsertEntry notes_addVariant notes_listUserNotes
      notes_logLookup notes_listLookupHistory saveUserNote_unique)

lemma reachable_unique: "reachable db \<Longrightarrow> notes_unique (UserWordNotes db)"
proof (induction rule: reachable.induct)
  case init
  show ?case by (simp add: empty_store_def notes_unique_def)
next
  case (step db a ctx clock)
  from step.IH show ?case by (rule server_unique)
qed

section \<open>The actions on inputs their schemas accept\<close>

lemma upsertEntry_action_valid:
  "upsertEntry_schema input \<Longrightarrow> upsertEntry_action issues input clock db = upsertEntry input clock db"
  by (simp add: upsertEntry_action_def defineAction_def)

lemma addVariant_action_valid:
  "addVariant_schema input \<Longrightarrow> addVariant_action issues input clock db = addVariant input clock db"
  by (simp add: addVariant_action_def defineAction_def)

lemma saveUserNote_action_valid:
  "saveUserNote_schema input \<Longrightarrow>
   saveUserNote_action issues input ctx clock db = saveUserNote input ctx clock db"
  by (simp add: saveUserNote_action_def defineAction_def)

lemma logLookup_action_valid:
  "logLookup_schema input \<Longrightarrow>
   logLookup_action issues input ctx clock db = logLookup input ctx clock db"
  by (simp add: logLookup_action_def defineAction_def)

lemma listUserNotes_action_eq: "listUserNotes_action issues ctx db = listUserNotes ctx db"
  by (simp add: listUserNotes_action_def defineAction_def empty_schema_def)

lemma listLookupHistory_action_eq:
  "listLookupHistory_action issues ctx db = listLookupHistory ctx db"
  by (simp add: listLookupHistory_action_def defineAction_def empty_schema_def)

text \<open>An input the schema rejects: the input error, and the store as it was.\<close>

lemma defineAction_rejects:
  "\<not> schema input \<Longrightarrow>
   defineAction schema handler issues input db =
     (Inl \<lparr>code = BAD_REQUEST, message = issues\<rparr>, db)"
  by (simp add: defineAction_def)

text \<open>An action leaves the store its handler leaves, or the store it found.\<close>

lemma action_store_cases:
  "action_store issues a ctx clock db = server a ctx clock db \<or>
   action_store issues a ctx clock db = db"
  by (cases a)
    (simp_all add: action_store_def server_def upsertEntry_action_def addVariant_action_def
      saveUserNote_action_def listUserNotes_action_def logLookup_action_def
      listLookupHistory_action_def defineAction_def)

lemma action_store_reachable:
  assumes "reachable db"
  shows "reachable (action_store issues a ctx clock db)"
proof -
  have "reachable (server a ctx clock db)" using assms by (rule reachable.step)
  then show ?thesis
    using assms action_store_cases [of issues a ctx clock db] by auto
qed

section \<open>The handlers on every input of their type\<close>

lemma handler_insert:
  assumes "ue_id input = None"
  shows "\<exists>e. upsertEntry input clock db =
               (Inr (Some e), db\<lparr>DictionaryEntries := DictionaryEntries db @ [e]\<rparr>) \<and>
             entry_id e \<notin> entry_id ` set (DictionaryEntries db) \<and>
             entry_term e = ue_term input \<and>
             entry_createdAt e = clock (upsertEntry_reads input) \<and>
             entry_updatedAt e = clock (Suc (upsertEntry_reads input)) \<and>
             (entry_createdAt e = entry_updatedAt e) =
               (clock (upsertEntry_reads input) = clock (Suc (upsertEntry_reads input)))"
  using assms next_id_fresh_rows [of entry_id "DictionaryEntries db"]
  by (simp add: upsertEntry_def db_insert_eq first_single entry_row_def upsertEntry_baseValues_def)

lemma handler_missing_id:
  assumes "ue_id input = Some i" and "i \<noteq> 0"
    and "i \<notin> entry_id ` set (DictionaryEntries db)"
  shows "\<exists>e. code e = NOT_FOUND \<and> upsertEntry input clock db = (Inl e, db)"
proof -
  have "List.find (\<lambda>r. entry_id r = i) (DictionaryEntries db) = None"
    using assms(3) by (auto simp: find_None_iff)
  then show ?thesis using assms(1,2)
    by (simp add: upsertEntry_def first_take_filter entry_not_found_def)
qed

lemma handler_addVariant:
  "(if av_entryId input \<in> entry_id ` set (DictionaryEntries db)
    then \<exists>v. addVariant input clock db =
                (Inr (Some v), db\<lparr>EntryVariants := EntryVariants db @ [v]\<rparr>) \<and>
              variant_id v \<notin> variant_id ` set (EntryVariants db) \<and>
              variant_entryId v = av_entryId input \<and>
              variant_variant v = av_variant input \<and>
              variant_variantType v = av_variantType input
    else \<exists>e. code e = NOT_FOUND \<and> addVariant input clock db = (Inl e, db))"
proof (cases "List.find (\<lambda>r. entry_id r = av_entryId input) (DictionaryEntries db)")
  case None
  then have "av_entryId input \<notin> entry_id ` set (DictionaryEntries db)"
    by (auto simp: find_None_iff)
  then show ?thesis using None
    by (simp add: addVariant_def first_take_filter entry_not_found_def)
next
  case (Some entry)
  from find_SomeD [OF this]
  have "entry \<in> set (DictionaryEntries db)" and "entry_id entry = av_entryId input"
    by simp_all
  then have "av_entryId input \<in> entry_id ` set (DictionaryEntries db)"
    by (metis imageI)
  then show ?thesis
    using Some next_id_fresh_rows [of variant_id "EntryVariants db"]
    by (simp add: addVariant_def first_take_filter db_insert_eq first_single stored_def optional_def
        split: option.split)
qed

lemma handler_unauthenticated:
  assumes "locals_user ctx = None"
  shows "\<exists>e. code e = UNAUTHORIZED \<and>
           saveUserNote note_input ctx clock db = (Inl e, db) \<and>
           listUserNotes ctx db = (Inl e, db) \<and>
           logLookup lookup_input ctx clock db = (Inl e, db) \<and>
           listLookupHistory ctx db = (Inl e, db)"
  using assms
  by (simp add: saveUserNote_def listUserNotes_def logLookup_def listLookupHistory_def
      requireUser_None)

lemma handler_zero_id:
  assumes "ue_id input = Some 0"
  shows "upsertEntry input clock db = upsertEntry (input\<lparr>ue_id := None\<rparr>) clock db \<and>
         (\<exists>e. upsertEntry input clock db =
                 (Inr (Some e), db\<lparr>DictionaryEntries := DictionaryEntries db @ [e]\<rparr>) \<and>
               entry_id e \<notin> entry_id ` set (DictionaryEntries db) \<and>
               entry_term e = ue_term input)"
  using assms next_id_fresh_rows [of entry_id "DictionaryEntries db"]
  by (simp add: upsertEntry_def db_insert_eq first_single entry_row_def upsertEntry_baseValues_def
      upsertEntry_reads_def)

section \<open>The claims\<close>

text \<open>
  C1. An \<open>upsertEntry\<close> call whose id names an existing entry should keep the prior value
  of every omitted field (lemma, payload, partOfSpeech, language), keep \<open>createdAt\<close> and
  move \<open>updatedAt\<close> strictly forward. The handler builds \<^verbatim>\<open>baseValues\<close> before it
  reads the existing row and passes all of it to the update, so an omitted language is
  written as \<open>''en''\<close> and \<open>createdAt\<close> is overwritten with a clock reading: the French
  entry created at time 10 and updated at time 20 with only its term comes back with
  language \<open>''en''\<close> and \<open>createdAt = 20\<close>. Its lemma and partOfSpeech are kept and
  its \<open>updatedAt\<close> moves from 10 to 20.
\<close>

theorem upsertEntry_update_overwrites:
  "upsertEntry courir_input (clock_at 20) courir_store =
     (Inr (Some \<lparr>entry_id = 1, entry_term = ''courir'', entry_language = ''en'',
                 entry_lemma = Some ''courir'', entry_payload = None,
                 entry_partOfSpeech = Some ''verb'',
                 entry_fetchedAt = 20, entry_createdAt = 20, entry_updatedAt = 20\<rparr>),
      empty_store\<lparr>DictionaryEntries :=
        [\<lparr>entry_id = 1, entry_term = ''courir'', entry_language = ''en'',
          entry_lemma = Some ''courir'', entry_payload = None,
          entry_partOfSpeech = Some ''verb'',
          entry_fetchedAt = 20, entry_createdAt = 20, entry_updatedAt = 20\<rparr>]\<rparr>)"
  by (simp add: upsertEntry_def courir_input_def courir_store_def courir_entry_def empty_store_def
      clock_at_def first_def db_update_def set_entry_def upsertEntry_baseValues_def
      upsertEntry_reads_def optional_def coalesce_value_def assign_def)

text \<open>
  C2. Applying the merge a second time, with the same input, to the record the first
  application produced. For \<open>saveUserNote\<close> the second record equals the first except
  for \<open>updatedAt\<close>. For \<open>upsertEntry\<close> the second record has the id, term, language,
  lemma, payload and partOfSpeech of the first; \<open>fetchedAt\<close> is that of the first when
  the input provides it and the current clock reading otherwise, and \<open>updatedAt\<close> is a
  clock reading.
\<close>

theorem merge_twice:
  "(let n1 = saveUserNote_merge existing input u clock1 i;
        n2 = saveUserNote_merge (Some n1) input u clock2 j
    in n2 = n1\<lparr>note_updatedAt := clock2 0\<rparr>) \<and>
   (let e1 = upsertEntry_merge existing' input' clock1 i';
        e2 = upsertEntry_merge (Some e1) input' clock2 j'
    in entry_id e2 = entry_id e1 \<and>
       entry_term e2 = entry_term e1 \<and>
       entry_language e2 = entry_language e1 \<and>
       entry_lemma e2 = entry_lemma e1 \<and>
       entry_payload e2 = entry_payload e1 \<and>
       entry_partOfSpeech e2 = entry_partOfSpeech e1 \<and>
       entry_fetchedAt e2 =
         (case ue_fetchedAt input' of None \<Rightarrow> clock2 0 | Some d \<Rightarrow> entry_fetchedAt e1) \<and>
       entry_updatedAt e2 = clock2 (Suc (upsertEntry_reads input')))"
proof
  have "saveUserNote_merge (Some (saveUserNote_merge existing input u clock1 i)) input u clock2 j =
        (saveUserNote_merge existing input u clock1 i)\<lparr>note_updatedAt := clock2 0\<rparr>"
    by (rule UserWordNote.equality)
      (simp_all add: saveUserNote_merge_fields split: option.split)
  then show "let n1 = saveUserNote_merge existing input u clock1 i;
        n2 = saveUserNote_merge (Some n1) input u clock2 j
    in n2 = n1\<lparr>note_updatedAt := clock2 0\<rparr>"
    by (simp add: Let_def)
  show "let e1 = upsertEntry_merge existing' input' clock1 i';
        e2 = upsertEntry_merge (Some e1) input' clock2 j'
    in entry_id e2 = entry_id e1 \<and>
       entry_term e2 = entry_term e1 \<and>
       entry_language e2 = entry_language e1 \<and>
       entry_lemma e2 = entry_lemma e1 \<and>
       entry_payload e2 = entry_payload e1 \<and>
       entry_partOfSpeech e2 = entry_partOfSpeech e1 \<and>
       entry_fetchedAt e2 =
         (case ue_fetchedAt input' of None \<Rightarrow> clock2 0 | Some d \<Rightarrow> entry_fetchedAt e1) \<and>
       entry_updatedAt e2 = clock2 (Suc (upsertEntry_reads input'))"
    by (simp add: Let_def upsertEntry_merge_fields split: option.split js.split)
qed

text \<open>
  C2 as stated fails for \<open>upsertEntry\<close>: the same update applied at time 20 and again
  at time 30 gives records that differ in \<open>fetchedAt\<close> and \<open>createdAt\<close>, not only in
  \<open>updatedAt\<close>.
\<close>

theorem upsertEntry_twice_restamps:
  "fst (upsertEntry courir_input (clock_at 20) courir_store) =
     Inr (Some \<lparr>entry_id = 1, entry_term = ''courir'', entry_language = ''en'',
                entry_lemma = Some ''courir'', entry_payload = None,
                entry_partOfSpeech = Some ''verb'',
                entry_fetchedAt = 20, entry_createdAt = 20, entry_updatedAt = 20\<rparr>) \<and>
   fst (upsertEntry courir_input (clock_at 30)
          (snd (upsertEntry courir_input (clock_at 20) courir_store))) =
     Inr (Some \<lparr>entry_id = 1, entry_term = ''courir'', entry_language = ''en'',
                entry_lemma = Some ''courir'', entry_payload = None,
                entry_partOfSpeech = Some ''verb'',
                entry_fetchedAt = 30, entry_createdAt = 30, entry_updatedAt = 30\<rparr>)"
  by (simp add: eval_defs example_defs)

text \<open>
  C3. In a store the actions can produce, two \<open>saveUserNote\<close> calls by the same signed-in
  user for the same existing entry both succeed; afterwards exactly one note exists for
  the pair, it is the record the second call returns, and each of its fields is the
  second call's explicit value, else the first call's, else the value the pair had
  before the two calls (the column default when it had none).
\<close>

theorem saveUserNote_twice:
  assumes "reachable db" and "locals_user ctx = Some u"
    and "eid \<in> entry_id ` set (DictionaryEntries db)"
    and "sn_entryId input1 = eid" and "sn_entryId input2 = eid"
  shows "\<exists>n1 db1 n2 db2.
           saveUserNote input1 ctx clock1 db = (Inr (Some n1), db1) \<and>
           saveUserNote input2 ctx clock2 db1 = (Inr (Some n2), db2) \<and>
           filter (\<lambda>r. note_entryId r = eid \<and> note_userId r = user_id u) (UserWordNotes db2) =
             [n2] \<and>
           (let prior = List.find (\<lambda>r. note_entryId r = eid \<and> note_userId r = user_id u)
                          (UserWordNotes db)
            in note_tags n2 =
                 (case explicit_union (sn_tags input2) (sn_tags input1) of
                    Some v \<Rightarrow> Some v
                  | None \<Rightarrow> (case prior of None \<Rightarrow> None | Some p \<Rightarrow> note_tags p)) \<and>
               note_note n2 =
                 (case explicit_union (sn_note input2) (sn_note input1) of
                    Some v \<Rightarrow> Some v
                  | None \<Rightarrow> (case prior of None \<Rightarrow> None | Some p \<Rightarrow> note_note p)) \<and>
               note_exampleSentence n2 =
                 (case explicit_union (sn_exampleSentence input2) (sn_exampleSentence input1) of
                    Some v \<Rightarrow> Some v
                  | None \<Rightarrow> (case prior of None \<Rightarrow> None | Some p \<Rightarrow> note_exampleSentence p)) \<and>
               note_isStarred n2 =
                 (case explicit_union (sn_isStarred input2) (sn_isStarred input1) of
                    Some v \<Rightarrow> v
                  | None \<Rightarrow> (case prior of None \<Rightarrow> False | Some p \<Rightarrow> note_isStarred p)) \<and>
               note_familiarity n2 =
                 (case explicit_union (sn_familiarity input2) (sn_familiarity input1) of
                    Some v \<Rightarrow> v
                  | None \<Rightarrow> (case prior of None \<Rightarrow> New | Some p \<Rightarrow> note_familiarity p)))"
proof -
  let ?p = "\<lambda>r. note_entryId r = eid \<and> note_userId r = user_id u"
  let ?prior = "List.find ?p (UserWordNotes db)"
  let ?n1 = "saveUserNote_merge ?prior input1 u clock1 (next_id (map note_id (UserWordNotes db)))"
  have unique: "notes_unique (UserWordNotes db)" by (rule reachable_unique [OF assms(1)])
  have entry1: "sn_entryId input1 \<in> entry_id ` set (DictionaryEntries db)"
    using assms(3,4) by simp
  from saveUserNote_step [OF unique assms(2) entry1, of clock1]
  obtain rows1 where
    run1: "saveUserNote input1 ctx clock1 db = (Inr (Some ?n1), db\<lparr>UserWordNotes := rows1\<rparr>)"
    and unique1: "notes_unique rows1" and only1: "filter ?p rows1 = [?n1]"
    unfolding assms(4) by blast
  let ?db1 = "db\<lparr>UserWordNotes := rows1\<rparr>"
  let ?n2 = "saveUserNote_merge (Some ?n1) input2 u clock2 (next_id (map note_id rows1))"
  have found1: "List.find ?p rows1 = Some ?n1" by (rule find_of_filter [OF only1])
  have unique1': "notes_unique (UserWordNotes ?db1)" using unique1 by simp
  have entry2: "sn_entryId input2 \<in> entry_id ` set (DictionaryEntries ?db1)"
    using assms(3,5) by simp
  from saveUserNote_step [OF unique1' assms(2) entry2, of clock2]
  obtain rows2 where
    run2: "saveUserNote input2 ctx clock2 ?db1 = (Inr (Some ?n2), ?db1\<lparr>UserWordNotes := rows2\<rparr>)"
    and only2: "filter ?p rows2 = [?n2]"
    unfolding assms(5) by (auto simp: found1)
  have only2': "filter ?p (UserWordNotes (?db1\<lparr>UserWordNotes := rows2\<rparr>)) = [?n2]"
    using only2 by simp
  have fields:
    "let prior = ?prior
     in note_tags ?n2 =
          (case explicit_union (sn_tags input2) (sn_tags input1) of
             Some v \<Rightarrow> Some v
           | None \<Rightarrow> (case prior of None \<Rightarrow> None | Some p \<Rightarrow> note_tags p)) \<and>
        note_note ?n2 =
          (case explicit_union (sn_note input2) (sn_note input1) of
             Some v \<Rightarrow> Some v
           | None \<Rightarrow> (case prior of None \<Rightarrow> None | Some p \<Rightarrow> note_note p)) \<and>
        note_exampleSentence ?n2 =
          (case explicit_union (sn_exampleSentence input2) (sn_exampleSentence input1) of
             Some v \<Rightarrow> Some v
           | None \<Rightarrow> (case prior of None \<Rightarrow> None | Some p \<Rightarrow> note_exampleSentence p)) \<and>
        note_isStarred ?n2 =
          (case explicit_union (sn_isStarred input2) (sn_isStarred input1) of
             Some v \<Rightarrow> v
           | None \<Rightarrow> (case prior of None \<Rightarrow> False | Some p \<Rightarrow> note_isStarred p)) \<and>
        note_familiarity ?n2 =
          (case explicit_union (sn_familiarity input2) (sn_familiarity input1) of
             Some v \<Rightarrow> v
           | None \<Rightarrow> (case prior of None \<Rightarrow> New | Some p \<Rightarrow> note_familiarity p))"
    by (simp add: Let_def saveUserNote_merge_fields explicit_union_def split: option.split)
  from run1 run2 only2' fields show ?thesis by blast
qed

theorem saveUserNote_twice_witness:
  "reachable run_store \<and>
   locals_user (signed_in ''u1'') = Some \<lparr>user_id = ''u1''\<rparr> \<and>
   1 \<in> entry_id ` set (DictionaryEntries run_store) \<and>
   sn_entryId star_input = 1 \<and> sn_entryId jog_input = 1 \<and>
   (\<exists>n1 db1 n2 db2.
      saveUserNote star_input (signed_in ''u1'') (clock_at 20) run_store = (Inr (Some n1), db1) \<and>
      saveUserNote jog_input (signed_in ''u1'') (clock_at 30) db1 = (Inr (Some n2), db2) \<and>
      filter (\<lambda>r. note_entryId r = 1 \<and> note_userId r = ''u1'') (UserWordNotes db2) = [n2] \<and>
      note_tags n2 = None \<and> note_note n2 = Some ''means to jog'' \<and>
      note_exampleSentence n2 = None \<and> note_isStarred n2 = True \<and> note_familiarity n2 = New)"
proof -
  have reach: "reachable run_store"
    unfolding run_store_def by (rule reachable.step [OF reachable.init])
  have store: "run_store = empty_store\<lparr>DictionaryEntries :=
        [\<lparr>entry_id = 1, entry_term = ''run'', entry_language = ''en'',
          entry_lemma = None, entry_payload = None, entry_partOfSpeech = None,
          entry_fetchedAt = 10, entry_createdAt = 10, entry_updatedAt = 10\<rparr>]\<rparr>"
    by (simp add: run_store_def server_def eval_defs example_defs)
  have signed: "locals_user (signed_in ''u1'') = Some \<lparr>user_id = ''u1''\<rparr>"
    by (simp add: locals_user_def signed_in_def)
  have entry: "1 \<in> entry_id ` set (DictionaryEntries run_store)"
    by (simp add: store)
  have star: "sn_entryId star_input = 1" and jog: "sn_entryId jog_input = 1"
    by (simp_all add: star_input_def jog_input_def)
  have prior: "List.find (\<lambda>r. note_entryId r = 1 \<and> note_userId r = user_id \<lparr>user_id = ''u1''\<rparr>)
                 (UserWordNotes run_store) = None"
    by (simp add: store empty_store_def)
  from saveUserNote_twice [OF reach signed entry star jog, of "clock_at 20" "clock_at 30"]
  obtain n1 db1 n2 db2 where
    run1: "saveUserNote star_input (signed_in ''u1'') (clock_at 20) run_store =
             (Inr (Some n1), db1)"
    and run2: "saveUserNote jog_input (signed_in ''u1'') (clock_at 30) db1 = (Inr (Some n2), db2)"
    and only: "filter (\<lambda>r. note_entryId r = 1 \<and> note_userId r = user_id \<lparr>user_id = ''u1''\<rparr>)
                 (UserWordNotes db2) = [n2]"
    and fields:
      "note_tags n2 =
         (case explicit_union (sn_tags jog_input) (sn_tags star_input) of
            Some v \<Rightarrow> Some v | None \<Rightarrow> None) \<and>
       note_note n2 =
         (case explicit_union (sn_note jog_input) (sn_note star_input) of
            Some v \<Rightarrow> Some v | None \<Rightarrow> None) \<and>
       note_exampleSentence n2 =
         (case explicit_union (sn_exampleSentence jog_input) (sn_exampleSentence star_input) of
            Some v \<Rightarrow> Some v | None \<Rightarrow> None) \<and>
       note_isStarred n2 =
         (case explicit_union (sn_isStarred jog_input) (sn_isStarred star_input) of
            Some v \<Rightarrow> v | None \<Rightarrow> False) \<and>
       note_familiarity n2 =
         (case explicit_union (sn_familiarity jog_input) (sn_familiarity star_input) of
            Some v \<Rightarrow> v | None \<Rightarrow> New)"
    unfolding prior Let_def option.case by blast
  from fields have field_values:
    "note_tags n2 = None" "note_note n2 = Some ''means to jog''"
    "note_exampleSentence n2 = None" "note_isStarred n2 = True" "note_familiarity n2 = New"
    by (simp_all add: explicit_union_def star_input_def jog_input_def)
  from only have only': "filter (\<lambda>r. note_entryId r = 1 \<and> note_userId r = ''u1'') (UserWordNotes db2) = [n2]"
    by simp
  from reach signed entry star jog run1 run2 only' field_values show ?thesis by blast
qed

text \<open>
  C4. The \<open>upsertEntry\<close> action, on a valid input (one its schema accepts) without id,
  appends a new entry, under a new id, whose term is the input's term. Its \<open>createdAt\<close>
  and \<open>updatedAt\<close> are two successive readings of the clock, so they are equal exactly
  when the clock does not advance between the two readings.
\<close>

theorem upsertEntry_insert:
  assumes "upsertEntry_schema input" and "ue_id input = None"
  shows "\<exists>e. upsertEntry_action issues input clock db =
               (Inr (Some e), db\<lparr>DictionaryEntries := DictionaryEntries db @ [e]\<rparr>) \<and>
             entry_id e \<notin> entry_id ` set (DictionaryEntries db) \<and>
             entry_term e = ue_term input \<and>
             entry_createdAt e = clock (upsertEntry_reads input) \<and>
             entry_updatedAt e = clock (Suc (upsertEntry_reads input)) \<and>
             (entry_createdAt e = entry_updatedAt e) =
               (clock (upsertEntry_reads input) = clock (Suc (upsertEntry_reads input)))"
  unfolding upsertEntry_action_valid [OF assms(1)] by (rule handler_insert [OF assms(2)])

theorem upsertEntry_insert_witness:
  "upsertEntry_schema run_input \<and> ue_id run_input = None \<and>
   (\<exists>e. upsertEntry_action ''[]'' run_input ticking_clock empty_store =
           (Inr (Some e), empty_store\<lparr>DictionaryEntries := DictionaryEntries empty_store @ [e]\<rparr>) \<and>
         entry_id e \<notin> entry_id ` set (DictionaryEntries empty_store) \<and>
         entry_term e = ''run'' \<and>
         entry_createdAt e = 1000 \<and>
         entry_updatedAt e = 1001)"
proof -
  have valid: "upsertEntry_schema run_input"
    by (simp add: schema_defs run_input_def)
  have given: "ue_id run_input = None" and its_term: "ue_term run_input = ''run''"
    and reads: "upsertEntry_reads run_input = 1"
    by (simp_all add: run_input_def upsertEntry_reads_def)
  show ?thesis
    using valid given
      upsertEntry_insert [OF valid given, where issues = "''[]''" and clock = ticking_clock
        and db = empty_store]
    by (auto simp: its_term reads ticking_clock_def)
qed

text \<open>
  C4 as stated fails when the clock advances between the two readings: the new entry
  has \<open>createdAt = 1000\<close> and \<open>updatedAt = 1001\<close>.
\<close>

theorem upsertEntry_insert_clock_ticks:
  "upsertEntry run_input ticking_clock empty_store =
     (Inr (Some \<lparr>entry_id = 1, entry_term = ''run'', entry_language = ''en'',
                 entry_lemma = None, entry_payload = None, entry_partOfSpeech = None,
                 entry_fetchedAt = 1000, entry_createdAt = 1000, entry_updatedAt = 1001\<rparr>),
      empty_store\<lparr>DictionaryEntries :=
        [\<lparr>entry_id = 1, entry_term = ''run'', entry_language = ''en'',
          entry_lemma = None, entry_payload = None, entry_partOfSpeech = None,
          entry_fetchedAt = 1000, entry_createdAt = 1000, entry_updatedAt = 1001\<rparr>]\<rparr>)"
  by (simp add: eval_defs example_defs)

text \<open>
  C5. The \<open>upsertEntry\<close> action, on an input its schema accepts whose id is present, is
  not 0 and names no existing entry, fails with \<open>NOT_FOUND\<close> and leaves the store as it
  was.
\<close>

theorem upsertEntry_missing_id:
  assumes "upsertEntry_schema input" and "ue_id input = Some i" and "i \<noteq> 0"
    and "i \<notin> entry_id ` set (DictionaryEntries db)"
  shows "\<exists>e. code e = NOT_FOUND \<and> upsertEntry_action issues input clock db = (Inl e, db)"
  unfolding upsertEntry_action_valid [OF assms(1)] by (rule handler_missing_id [OF assms(2-4)])

theorem upsertEntry_missing_id_witness:
  "upsertEntry_schema (run_input\<lparr>ue_id := Some 7\<rparr>) \<and>
   ue_id (run_input\<lparr>ue_id := Some 7\<rparr>) = Some 7 \<and> (7::int) \<noteq> 0 \<and>
   7 \<notin> entry_id ` set (DictionaryEntries courir_store) \<and>
   (\<exists>e. code e = NOT_FOUND \<and>
     upsertEntry_action ''[]'' (run_input\<lparr>ue_id := Some 7\<rparr>) (clock_at 20) courir_store =
       (Inl e, courir_store))"
proof -
  have valid: "upsertEntry_schema (run_input\<lparr>ue_id := Some 7\<rparr>)"
    by (simp add: schema_defs run_input_def)
  have given: "ue_id (run_input\<lparr>ue_id := Some 7\<rparr>) = Some 7" and nonzero: "(7::int) \<noteq> 0"
    and missing: "7 \<notin> entry_id ` set (DictionaryEntries courir_store)"
    by (simp_all add: courir_store_def courir_entry_def empty_store_def)
  show ?thesis
    using valid given nonzero missing
      upsertEntry_missing_id [OF valid given nonzero missing, where issues = "''[]''"
        and clock = "clock_at 20"]
    by blast
qed

text \<open>
  C5 as stated fails for the id 0: it is present and names no entry of the empty store,
  and the call inserts a new entry instead of failing.
\<close>

theorem upsertEntry_zero_id_not_rejected:
  "ue_id zero_id_input = Some 0 \<and>
   0 \<notin> entry_id ` set (DictionaryEntries empty_store) \<and>
   upsertEntry zero_id_input (clock_at 20) empty_store =
     (Inr (Some \<lparr>entry_id = 1, entry_term = ''run'', entry_language = ''en'',
                 entry_lemma = None, entry_payload = None, entry_partOfSpeech = None,
                 entry_fetchedAt = 20, entry_createdAt = 20, entry_updatedAt = 20\<rparr>),
      empty_store\<lparr>DictionaryEntries :=
        [\<lparr>entry_id = 1, entry_term = ''run'', entry_language = ''en'',
          entry_lemma = None, entry_payload = None, entry_partOfSpeech = None,
          entry_fetchedAt = 20, entry_createdAt = 20, entry_updatedAt = 20\<rparr>]\<rparr>)"
  by (simp add: eval_defs example_defs)

text \<open>
  C6. The \<open>addVariant\<close> action, on an input its schema accepts: for an \<open>entryId\<close> that
  names no entry it fails with \<open>NOT_FOUND\<close> and leaves the store as it was; for an
  \<open>entryId\<close> that names an entry it appends one new variant row, under a new id, and
  changes no existing row.
\<close>

theorem addVariant_checks_entry:
  assumes "addVariant_schema input"
  shows "(if av_entryId input \<in> entry_id ` set (DictionaryEntries db)
          then \<exists>v. addVariant_action issues input clock db =
                      (Inr (Some v), db\<lparr>EntryVariants := EntryVariants db @ [v]\<rparr>) \<and>
                    variant_id v \<notin> variant_id ` set (EntryVariants db) \<and>
                    variant_entryId v = av_entryId input \<and>
                    variant_variant v = av_variant input \<and>
                    variant_variantType v = av_variantType input
          else \<exists>e. code e = NOT_FOUND \<and> addVariant_action issues input clock db = (Inl e, db))"
  unfolding addVariant_action_valid [OF assms] by (rule handler_addVariant)

theorem addVariant_checks_entry_witness:
  "addVariant_schema (plural_input 1) \<and>
   1 \<in> entry_id ` set (DictionaryEntries courir_store) \<and>
   (\<exists>v. addVariant_action ''[]'' (plural_input 1) (clock_at 20) courir_store =
           (Inr (Some v), courir_store\<lparr>EntryVariants := EntryVariants courir_store @ [v]\<rparr>) \<and>
         variant_id v \<notin> variant_id ` set (EntryVariants courir_store) \<and>
         variant_entryId v = 1 \<and> variant_variant v = ''courirs'' \<and>
         variant_variantType v = Some ''plural'') \<and>
   addVariant_schema (plural_input 7) \<and>
   7 \<notin> entry_id ` set (DictionaryEntries courir_store) \<and>
   (\<exists>e. code e = NOT_FOUND \<and>
     addVariant_action ''[]'' (plural_input 7) (clock_at 20) courir_store = (Inl e, courir_store))"
proof -
  have valid: "addVariant_schema (plural_input 1)" "addVariant_schema (plural_input 7)"
    by (simp_all add: schema_defs plural_input_def)
  show ?thesis
    using valid
      addVariant_checks_entry [OF valid(1), where issues = "''[]''" and db = courir_store
        and clock = "clock_at 20"]
      addVariant_checks_entry [OF valid(2), where issues = "''[]''" and db = courir_store
        and clock = "clock_at 20"]
    by (simp add: plural_input_def courir_store_def courir_entry_def empty_store_def)
qed

text \<open>
  C7. Called without a signed-in user, on inputs their schemas accept, the actions
  \<open>saveUserNote\<close>, \<open>listUserNotes\<close>, \<open>logLookup\<close> and \<open>listLookupHistory\<close> fail with
  \<open>UNAUTHORIZED\<close> and leave the store as it was.
\<close>

theorem unauthenticated_calls_fail:
  assumes "locals_user ctx = None"
    and "saveUserNote_schema note_input" and "logLookup_schema lookup_input"
  shows "\<exists>e. code e = UNAUTHORIZED \<and>
           saveUserNote_action issues note_input ctx clock db = (Inl e, db) \<and>
           listUserNotes_action issues ctx db = (Inl e, db) \<and>
           logLookup_action issues lookup_input ctx clock db = (Inl e, db) \<and>
           listLookupHistory_action issues ctx db = (Inl e, db)"
  unfolding saveUserNote_action_valid [OF assms(2)] logLookup_action_valid [OF assms(3)]
    listUserNotes_action_eq listLookupHistory_action_eq
  by (rule handler_unauthenticated [OF assms(1)])

theorem unauthenticated_calls_fail_witness:
  "locals_user anonymous = None \<and>
   saveUserNote_schema star_input \<and> logLookup_schema run_lookup \<and>
   (\<exists>e. code e = UNAUTHORIZED \<and>
     saveUserNote_action ''[]'' star_input anonymous (clock_at 20) courir_store =
       (Inl e, courir_store) \<and>
     listUserNotes_action ''[]'' anonymous courir_store = (Inl e, courir_store) \<and>
     logLookup_action ''[]'' run_lookup anonymous (clock_at 20) courir_store =
       (Inl e, courir_store) \<and>
     listLookupHistory_action ''[]'' anonymous courir_store = (Inl e, courir_store))"
proof -
  have signed_out: "locals_user anonymous = None"
    by (simp add: anonymous_def locals_user_def)
  have valid: "saveUserNote_schema star_input" "logLookup_schema run_lookup"
    by (simp_all add: schema_defs star_input_def run_lookup_def)
  show ?thesis
    using signed_out valid
      unauthenticated_calls_fail [OF signed_out valid, where issues = "''[]''"
        and clock = "clock_at 20" and db = courir_store]
    by blast
qed

text \<open>
  C8. For a signed-in caller and any store, every note \<open>listUserNotes\<close> returns is a
  note of the table whose \<open>userId\<close> is the caller's id.
\<close>

theorem listUserNotes_own_notes:
  assumes "locals_user ctx = Some u"
  shows "\<exists>notes. listUserNotes ctx db = (Inr notes, db) \<and>
           (\<forall>n \<in> set notes. note_userId n = user_id u \<and> n \<in> set (UserWordNotes db))"
  using assms by (simp add: listUserNotes_def requireUser_Some)

theorem listUserNotes_own_notes_witness:
  "locals_user (signed_in ''u1'') = Some \<lparr>user_id = ''u1''\<rparr> \<and>
   (\<exists>notes. listUserNotes (signed_in ''u1'') two_users_store = (Inr notes, two_users_store) \<and>
      (\<forall>n \<in> set notes. note_userId n = ''u1'' \<and> n \<in> set (UserWordNotes two_users_store)))"
  using listUserNotes_own_notes [of "signed_in ''u1''" "\<lparr>user_id = ''u1''\<rparr>" two_users_store]
  by (simp add: signed_in_def locals_user_def)

text \<open>
  C9. A \<open>logLookup\<close> call that succeeds appends exactly one row to the lookup history,
  under a new id, with the input's term and with language \<open>''en''\<close> when the input has
  none; and whatever action is called, the lookup history afterwards is the history
  before followed by at most one new row, so no row is updated or deleted.
\<close>

theorem lookup_history_append_only:
  "(fst (logLookup input ctx clock db) = Inr r \<longrightarrow>
      (\<exists>h. r = Some h \<and>
           snd (logLookup input ctx clock db) = db\<lparr>LookupHistory := LookupHistory db @ [h]\<rparr> \<and>
           history_id h \<notin> history_id ` set (LookupHistory db) \<and>
           history_term h = ll_term input \<and>
           history_language h = (case ll_language input of None \<Rightarrow> ''en'' | Some l \<Rightarrow> l))) \<and>
   (\<exists>new. LookupHistory (server a ctx' clock' db') = LookupHistory db' @ new \<and> length new \<le> 1)"
proof
  show "fst (logLookup input ctx clock db) = Inr r \<longrightarrow>
      (\<exists>h. r = Some h \<and>
           snd (logLookup input ctx clock db) = db\<lparr>LookupHistory := LookupHistory db @ [h]\<rparr> \<and>
           history_id h \<notin> history_id ` set (LookupHistory db) \<and>
           history_term h = ll_term input \<and>
           history_language h = (case ll_language input of None \<Rightarrow> ''en'' | Some l \<Rightarrow> l))"
    using next_id_fresh_rows [of history_id "LookupHistory db"]
    by (cases "requireUser ctx")
      (auto simp: logLookup_def db_insert_eq first_single optional_def coalesce_value_def
        split: option.split)
  show "\<exists>new. LookupHistory (server a ctx' clock' db') = LookupHistory db' @ new \<and> length new \<le> 1"
  proof (cases a)
    case (LogLookup lookup_input)
    then show ?thesis
      using history_logLookup [of lookup_input ctx' clock' db'] by (simp add: server_def)
  qed (simp_all add: server_def history_upsertEntry history_addVariant history_saveUserNote
        history_listUserNotes history_listLookupHistory)
qed

theorem lookup_history_append_only_witness:
  "fst (logLookup run_lookup (signed_in ''u1'') (clock_at 20) empty_store) =
     Inr (Some \<lparr>history_id = 1, history_userId = Some ''u1'', history_term = ''run'',
                history_language = ''en'', history_entryId = None, history_lookedAt = 20,
                history_source = None, history_context = None\<rparr>) \<and>
   (\<exists>h. snd (logLookup run_lookup (signed_in ''u1'') (clock_at 20) empty_store) =
           empty_store\<lparr>LookupHistory := LookupHistory empty_store @ [h]\<rparr> \<and>
         history_term h = ''run'' \<and> history_language h = ''en'') \<and>
   (\<exists>new. LookupHistory (server (UpsertEntry courir_input) anonymous (clock_at 20) courir_store) =
            LookupHistory courir_store @ new \<and> length new \<le> 1)"
proof -
  have success:
    "fst (logLookup run_lookup (signed_in ''u1'') (clock_at 20) empty_store) =
       Inr (Some \<lparr>history_id = 1, history_userId = Some ''u1'', history_term = ''run'',
                  history_language = ''en'', history_entryId = None, history_lookedAt = 20,
                  history_source = None, history_context = None\<rparr>)"
    by (simp add: eval_defs example_defs)
  show ?thesis
    using success
      lookup_history_append_only [of run_lookup "signed_in ''u1''" "clock_at 20" empty_store
        "Some \<lparr>history_id = 1, history_userId = Some ''u1'', history_term = ''run'',
                  history_language = ''en'', history_entryId = None, history_lookedAt = 20,
                  history_source = None, history_context = None\<rparr>"
        "UpsertEntry courir_input" anonymous "clock_at 20" courir_store]
    by (auto simp: run_lookup_def)
qed

text \<open>
  C10. The \<open>upsertEntry\<close> action, on an input its schema accepts whose id is 0, does
  what it does on the same input without id: it appends a new entry and does not fail
  with \<open>NOT_FOUND\<close>.
\<close>

theorem upsertEntry_zero_id_inserts:
  assumes "upsertEntry_schema input" and "ue_id input = Some 0"
  shows "upsertEntry_action issues input clock db =
           upsertEntry_action issues (input\<lparr>ue_id := None\<rparr>) clock db \<and>
         (\<exists>e. upsertEntry_action issues input clock db =
                 (Inr (Some e), db\<lparr>DictionaryEntries := DictionaryEntries db @ [e]\<rparr>) \<and>
               entry_id e \<notin> entry_id ` set (DictionaryEntries db) \<and>
               entry_term e = ue_term input)"
proof -
  have without: "upsertEntry_schema (input\<lparr>ue_id := None\<rparr>)"
    using assms(1) by (simp add: upsertEntry_schema_def optional_field_def)
  show ?thesis
    unfolding upsertEntry_action_valid [OF assms(1)] upsertEntry_action_valid [OF without]
    by (rule handler_zero_id [OF assms(2)])
qed

theorem upsertEntry_zero_id_inserts_witness:
  "upsertEntry_schema zero_id_input \<and> ue_id zero_id_input = Some 0 \<and>
   upsertEntry_action ''[]'' zero_id_input (clock_at 20) courir_store =
     upsertEntry_action ''[]'' (zero_id_input\<lparr>ue_id := None\<rparr>) (clock_at 20) courir_store \<and>
   (\<exists>e. upsertEntry_action ''[]'' zero_id_input (clock_at 20) courir_store =
           (Inr (Some e), courir_store\<lparr>DictionaryEntries := DictionaryEntries courir_store @ [e]\<rparr>) \<and>
         entry_id e \<notin> entry_id ` set (DictionaryEntries courir_store) \<and>
         entry_term e = ''run'')"
proof -
  have valid: "upsertEntry_schema zero_id_input"
    by (simp add: schema_defs zero_id_input_def run_input_def)
  have given: "ue_id zero_id_input = Some 0" and its_term: "ue_term zero_id_input = ''run''"
    by (simp_all add: zero_id_input_def run_input_def)
  show ?thesis
    using valid given
      upsertEntry_zero_id_inserts [OF valid given, where issues = "''[]''"
        and clock = "clock_at 20" and db = courir_store]
    unfolding its_term by blast
qed

end
